theory Spec2Isabelle
  imports Main "HOL-Library.Word"
begin

unbundle bit_operations_syntax

section \<open>polyfsck: the PolyFS image checker (tools/polyfs/polyfsck.c)\<close>

text \<open>
  The checker is modelled on a little-endian LP64 host: \<open>int\<close> and \<open>uint32_t\<close> have
  32 bits, \<open>unsigned long\<close> and \<open>size_t\<close> have 64, and \<open>POLYFS_32\<close> is the identity.
  The image is the byte content of the file named on the command line. Host calls
  that can only fail for operational reasons (\<open>stat\<close>, \<open>open\<close>, \<open>malloc\<close>, \<open>mkdir\<close>,
  \<open>write\<close>, ...) are taken to succeed; every \<open>die\<close> that depends on the image is a
  branch of the model.
\<close>

subsection \<open>Machine types and exit codes\<close>

type_synonym byte = "8 word"
type_synonym u16 = "16 word"
type_synonym u32 = "32 word"
type_synonym ulong = "64 word"

text \<open>\<open>die(status, syserr, fmt, ...)\<close>: the exit status and the format string.\<close>

datatype error = Die nat string

definition FSCK_OK :: nat where "FSCK_OK = 0"
definition FSCK_UNCORRECTED :: nat where "FSCK_UNCORRECTED = 4"
definition FSCK_ERROR :: nat where "FSCK_ERROR = 8"
definition FSCK_USAGE :: nat where "FSCK_USAGE = 16"

definition PAD_SIZE :: nat where "PAD_SIZE = 512"

subsection \<open>The declarations of polyfs/polyfs\_fs.h\<close>

text \<open>
  The header is not among the sources. Its numeric constants are parameters of the
  model; the structure layouts follow the tables of the format description.
\<close>

record polyfs_fs_h =
  POLYFS_MAGIC :: u32
  POLYFS_SUPPORTED_FLAGS :: u32
  POLYFS_FLAG_FSID_VERSION_1 :: u32
  POLYFS_FLAG_SHIFTED_ROOT_OFFSET :: u32
  POLYFS_FLAG_ZLIB_COMPRESSION :: u32
  POLYFS_FLAG_LZO_COMPRESSION :: u32
  POLYFS_BLOCK_MAX_SIZE_WITH_OVERHEAD :: nat

text \<open>Modelled from the spec: \<open>POLYFS_BLOCK_SIZE\<close>, given there as 4096.\<close>

definition POLYFS_BLOCK_SIZE :: nat where "POLYFS_BLOCK_SIZE = 4096"

text \<open>
  Modelled from the spec: \<open>struct polyfs_inode\<close>, 12 bytes: mode (16 bits), uid (16),
  size (24), gid (8), and one 32-bit word holding namelen (6 bits) and offset (26).
\<close>

record polyfs_inode =
  mode :: u16
  uid :: u16
  isize :: nat
  gid :: byte
  namelen :: nat
  ioffset :: nat

text \<open>
  Modelled from the spec: \<open>struct polyfs_super\<close>, 76 bytes: magic, size, flags, future,
  signature[16], fsid (crc, edition, blocks, files), name[16], root inode.
\<close>

record polyfs_info =
  crc :: u32
  edition :: u32
  blocks :: u32
  files :: u32

record polyfs_super =
  magic :: u32
  ssize :: u32
  flags :: u32
  future :: u32
  signature :: "byte list"
  fsid :: polyfs_info
  name :: "byte list"
  root :: polyfs_inode

definition sizeof_super :: nat where "sizeof_super = 76"
definition sizeof_inode :: nat where "sizeof_inode = 12"
definition offsetof_fsid_crc :: nat where "offsetof_fsid_crc = 32"

subsection \<open>Reading little-endian fields out of bytes\<close>

definition byte_at :: "byte list \<Rightarrow> nat \<Rightarrow> byte" where
  "byte_at bs i = (if i < length bs then bs ! i else 0)"

definition le16 :: "byte list \<Rightarrow> nat \<Rightarrow> nat" where
  "le16 bs i = unat (byte_at bs i) + 256 * unat (byte_at bs (i + 1))"

definition le24 :: "byte list \<Rightarrow> nat \<Rightarrow> nat" where
  "le24 bs i = le16 bs i + 65536 * unat (byte_at bs (i + 2))"

definition le32 :: "byte list \<Rightarrow> nat \<Rightarrow> nat" where
  "le32 bs i = le24 bs i + 16777216 * unat (byte_at bs (i + 3))"

text \<open>
  \<open>polyfs_iget\<close> on a little-endian host is a structure copy: the bit-fields are read
  where the compiler put them, the first-declared (namelen) in the low bits.
\<close>

definition polyfs_iget :: "byte list \<Rightarrow> nat \<Rightarrow> polyfs_inode" where
  "polyfs_iget bs p =
     \<lparr> mode = of_nat (le16 bs p),
       uid = of_nat (le16 bs (p + 2)),
       isize = le24 bs (p + 4),
       gid = byte_at bs (p + 7),
       namelen = le32 bs (p + 8) mod 64,
       ioffset = le32 bs (p + 8) div 64 \<rparr>"

text \<open>\<open>read(fd, &super, sizeof(super))\<close> at file position \<open>p\<close>.\<close>

definition read_super :: "byte list \<Rightarrow> nat \<Rightarrow> polyfs_super" where
  "read_super bs p =
     \<lparr> magic = of_nat (le32 bs p),
       ssize = of_nat (le32 bs (p + 4)),
       flags = of_nat (le32 bs (p + 8)),
       future = of_nat (le32 bs (p + 12)),
       signature = take 16 (drop (p + 16) bs),
       fsid = \<lparr> crc = of_nat (le32 bs (p + 32)),
                edition = of_nat (le32 bs (p + 36)),
                blocks = of_nat (le32 bs (p + 40)),
                files = of_nat (le32 bs (p + 44)) \<rparr>,
       name = take 16 (drop (p + 48) bs),
       root = polyfs_iget bs (p + 64) \<rparr>"

subsection \<open>test\_super\<close>

text \<open>
  \<open>find_super\<close> is the part of \<open>test_super\<close> that locates the superblock: the record
  last read into \<open>super\<close> and the value left in \<open>*start\<close> (initialised to 0 by
  \<open>main\<close>).
\<close>

definition find_super :: "polyfs_fs_h \<Rightarrow> byte list \<Rightarrow> polyfs_super \<times> nat" where
  "find_super h img =
     (let s0 = read_super img 0 in
      if magic s0 = POLYFS_MAGIC h then (s0, 0)
      else if length img \<ge> PAD_SIZE + sizeof_super then
        (let s1 = read_super img PAD_SIZE in
         if magic s1 = POLYFS_MAGIC h then (s1, PAD_SIZE) else (s1, 0))
      else (s0, 0))"

text \<open>
  \<open>test_super\<close> returns the decoded superblock and \<open>start\<close>; the file length is the
  length of the image. The warning about a file longer than the file system is not
  fatal and is not modelled.
\<close>

definition test_super :: "polyfs_fs_h \<Rightarrow> byte list \<Rightarrow> error + (polyfs_super \<times> nat)" where
  "test_super h img =
     (if length img < sizeof_super then
        Inl (Die FSCK_UNCORRECTED ''filesystem smaller than a polyfs superblock!'')
      else
        (let (super, start) = find_super h img in
         if magic super \<noteq> POLYFS_MAGIC h then
           Inl (Die FSCK_UNCORRECTED ''superblock magic not found'')
         else if flags super AND NOT (POLYFS_SUPPORTED_FLAGS h) \<noteq> 0 then
           Inl (Die FSCK_ERROR ''unsupported filesystem features'')
         else if unat (ssize super) < POLYFS_BLOCK_SIZE then
           Inl (Die FSCK_UNCORRECTED ''superblock size (%d) too small'')
         else if flags super AND POLYFS_FLAG_FSID_VERSION_1 h \<noteq> 0 then
           (if files (fsid super) = 0 then
              Inl (Die FSCK_UNCORRECTED ''zero file count'')
            else if length img < unat (ssize super) then
              Inl (Die FSCK_UNCORRECTED ''file length too short, %lu is smaller than %lu'')
            else Inr (super, start))
         else Inl (Die FSCK_UNCORRECTED ''invalid filesystem version'')))"

subsection \<open>zlib's crc32\<close>

text \<open>
  \<open>crc32\<close> belongs to zlib, not to this program. It is the reflected CRC-32 of
  IEEE 802.3 (polynomial \<open>0xEDB88320\<close>), computed here bit by bit on the value of the
  32-bit register; \<open>crc32(0L, Z_NULL, 0)\<close> is 0.
\<close>

definition crc_step :: "nat \<Rightarrow> nat" where
  "crc_step c = (if odd c then (c div 2) XOR 0xEDB88320 else c div 2)"

definition crc_byte :: "nat \<Rightarrow> nat \<Rightarrow> nat" where
  "crc_byte c b =
     crc_step (crc_step (crc_step (crc_step (crc_step (crc_step (crc_step (crc_step
       (c XOR b))))))))"

definition crc_reg :: "nat \<Rightarrow> byte list \<Rightarrow> nat" where
  "crc_reg r buf = foldl (\<lambda>c b. crc_byte c (unat b)) r buf"

definition crc32 :: "u32 \<Rightarrow> byte list \<Rightarrow> u32" where
  "crc32 c buf = of_nat (crc_reg (unat (c XOR 0xFFFFFFFF)) buf) XOR 0xFFFFFFFF"

subsection \<open>test\_crc\<close>

text \<open>\<open>((struct polyfs_super *) p)->fsid.crc = crc32(0L, Z_NULL, 0)\<close> on the bytes at \<open>p\<close>.\<close>

definition clear_crc :: "nat \<Rightarrow> byte list \<Rightarrow> byte list" where
  "clear_crc p buf =
     buf[p + offsetof_fsid_crc := 0, p + offsetof_fsid_crc + 1 := 0,
         p + offsetof_fsid_crc + 2 := 0, p + offsetof_fsid_crc + 3 := 0]"

text \<open>
  The fallback of \<open>test_crc\<close> when neither mapping succeeds: the file is read from
  \<open>start\<close> in pieces of 4096 bytes. \<open>len\<close> is the variable \<open>length\<close>, \<open>n\<close> the value
  \<open>super.size - start\<close>; the file position is \<open>start + len\<close>.
\<close>

function crc_read_loop :: "byte list \<Rightarrow> nat \<Rightarrow> nat \<Rightarrow> nat \<Rightarrow> u32 \<Rightarrow> u32" where
  "crc_read_loop img start n len c =
     (let chunk = take 4096 (drop (start + len) img); retval = length chunk in
      if retval = 0 then c
      else
        (let buf = (if len = 0 then clear_crc 0 chunk else chunk); len' = len + retval in
         if len' > n then crc32 c (take (retval - (len' - n)) buf)
         else crc_read_loop img start n len' (crc32 c buf)))"
  by pat_completeness auto
termination
  by (relation "measure (\<lambda>(img, start, n, len, c). length img - (start + len))") auto

declare crc_read_loop.simps [simp del]

text \<open>
  \<open>test_crc\<close>. \<open>mapped\<close> tells whether one of the two \<open>mmap\<close> calls succeeded; both
  leave the first \<open>super.size\<close> bytes of the file in \<open>buf\<close>.
\<close>

definition test_crc :: "polyfs_fs_h \<Rightarrow> bool \<Rightarrow> byte list \<Rightarrow> polyfs_super \<Rightarrow> nat \<Rightarrow> error + unit" where
  "test_crc h mapped img super start =
     (if flags super AND POLYFS_FLAG_FSID_VERSION_1 h = 0 then Inr ()
      else
        (let n = unat (ssize super - of_nat start);
             c = (if mapped then
                    (let buf = clear_crc start (take (unat (ssize super)) img)
                     in crc32 0 (take n (drop start buf)))
                  else crc_read_loop img start n 0 0)
         in if c \<noteq> crc (fsid super) then Inl (Die FSCK_UNCORRECTED ''crc error'')
            else Inr ()))"

subsection \<open>The globals of the walk\<close>

text \<open>
  What the program keeps in globals and never changes once the walk has begun: the
  open image \<open>fd\<close>, \<open>super\<close>, the options \<open>-x dir\<close>; with them, the constants of the
  missing header and the decompressors of zlib and liblzo2, which are outside the
  program and are parameters here. A decompressor maps the compressed bytes and the
  capacity of the output buffer to its return code and the bytes it produced;
  \<open>lzo1x_decompress_overlap\<close> is the second call of \<open>lzo1x_decompress_safe\<close>, whose
  input lies at the end of the output buffer (the first argument is the distance
  between the two).
\<close>

record globals =
  hdr :: polyfs_fs_h
  fd :: "byte list"
  super :: polyfs_super
  opt_extract :: bool
  extract_dir :: "byte list"
  lzo1x_decompress_safe :: "byte list \<Rightarrow> nat \<Rightarrow> int \<times> byte list"
  lzo1x_decompress_overlap :: "nat \<Rightarrow> byte list \<Rightarrow> nat \<Rightarrow> int \<times> byte list"
  inflate :: "byte list \<Rightarrow> nat \<Rightarrow> int \<times> byte list"

definition LZO_E_OK :: int where "LZO_E_OK = 0"
definition Z_STREAM_END :: int where "Z_STREAM_END = 1"

text \<open>What extraction asks of the host, in the order of the calls.\<close>

datatype host_op =
    Mkdir "byte list" u16
  | Open "byte list" u16
  | Write "byte list"
  | Close
  | Symlink "byte list" "byte list"
  | Mknod "byte list" u16 nat
  | Change_file_status "byte list" polyfs_inode

text \<open>
  The globals the walk changes: the four layout counters, the read window of
  \<open>romfs_read\<close>, the decompression buffer, and the calls made on the host so far.
\<close>

record fsck_state =
  start_dir :: ulong
  end_dir :: ulong
  start_data :: ulong
  end_data :: ulong
  read_buffer :: "byte list"
  read_buffer_block :: ulong
  outbuffer :: "byte list"
  host :: "host_op list"

definition ULONG_MAX :: ulong where "ULONG_MAX = 0xFFFFFFFFFFFFFFFF"

definition ROMBUFFER_BITS :: nat where "ROMBUFFER_BITS = 13"
definition ROMBUFFERSIZE :: nat where "ROMBUFFERSIZE = 8192"

definition init_state :: fsck_state where
  "init_state =
     \<lparr> start_dir = ULONG_MAX, end_dir = 0, start_data = ULONG_MAX, end_data = 0,
       read_buffer = replicate (ROMBUFFERSIZE * 2) 0, read_buffer_block = ULONG_MAX,
       outbuffer = replicate (POLYFS_BLOCK_SIZE * 2) 0, host = [] \<rparr>"

definition host_call :: "bool \<Rightarrow> host_op list \<Rightarrow> fsck_state \<Rightarrow> fsck_state" where
  "host_call extract ops st = (if extract then st\<lparr>host := host st @ ops\<rparr> else st)"

subsection \<open>File types of sys/stat.h\<close>

definition S_IFMT :: u16 where "S_IFMT = 0xF000"
definition S_ISDIR :: "u16 \<Rightarrow> bool" where "S_ISDIR m = (m AND S_IFMT = 0x4000)"
definition S_ISREG :: "u16 \<Rightarrow> bool" where "S_ISREG m = (m AND S_IFMT = 0x8000)"
definition S_ISLNK :: "u16 \<Rightarrow> bool" where "S_ISLNK m = (m AND S_IFMT = 0xA000)"
definition S_ISCHR :: "u16 \<Rightarrow> bool" where "S_ISCHR m = (m AND S_IFMT = 0x2000)"
definition S_ISBLK :: "u16 \<Rightarrow> bool" where "S_ISBLK m = (m AND S_IFMT = 0x6000)"
definition S_ISFIFO :: "u16 \<Rightarrow> bool" where "S_ISFIFO m = (m AND S_IFMT = 0x1000)"
definition S_ISSOCK :: "u16 \<Rightarrow> bool" where "S_ISSOCK m = (m AND S_IFMT = 0xC000)"

subsection \<open>romfs\_read and iget\<close>

text \<open>
  \<open>romfs_read\<close> returns a pointer into \<open>read_buffer\<close>: here the index it points to.
  \<open>block\<close> is an \<open>unsigned int\<close>, so the block number and the seek position
  \<open>block << ROMBUFFER_BITS\<close> are taken modulo \<open>2 ^ 32\<close>. A read that meets the end of
  the file fills only the beginning of the window and leaves the rest as it was.
\<close>

definition romfs_read :: "globals \<Rightarrow> ulong \<Rightarrow> fsck_state \<Rightarrow> nat \<times> fsck_state" where
  "romfs_read g offset st =
     (let block = (unat offset div 2 ^ ROMBUFFER_BITS) mod 2 ^ 32;
          st' = (if of_nat block \<noteq> read_buffer_block st then
                   (let pos = (block * 2 ^ ROMBUFFER_BITS) mod 2 ^ 32;
                        got = take (ROMBUFFERSIZE * 2) (drop pos (fd g))
                    in st\<lparr>read_buffer_block := of_nat block,
                          read_buffer := got @ drop (length got) (read_buffer st)\<rparr>)
                 else st)
      in (unat offset mod ROMBUFFERSIZE, st'))"

definition iget :: "globals \<Rightarrow> ulong \<Rightarrow> fsck_state \<Rightarrow> polyfs_inode \<times> fsck_state" where
  "iget g ino st =
     (let (p, st') = romfs_read g ino st in (polyfs_iget (read_buffer st') p, st'))"

text \<open>\<open>POLYFS_32(*(uint32_t *) romfs_read(offset))\<close>, widened to \<open>unsigned long\<close>.\<close>

definition read_u32 :: "globals \<Rightarrow> ulong \<Rightarrow> fsck_state \<Rightarrow> ulong \<times> fsck_state" where
  "read_u32 g offset st =
     (let (p, st') = romfs_read g offset st in (of_nat (le32 (read_buffer st') p), st'))"

subsection \<open>uncompress\_block\<close>

text \<open>
  \<open>src\<close> is the index into \<open>read_buffer\<close> that \<open>romfs_read\<close> returned, \<open>len\<close> the \<open>int\<close>
  argument. A decompressor's output is cut at the capacity it was given, and it
  replaces the beginning of \<open>outbuffer\<close>.
\<close>

definition set_outbuffer :: "byte list \<Rightarrow> fsck_state \<Rightarrow> fsck_state" where
  "set_outbuffer out st = st\<lparr>outbuffer := out @ drop (length out) (outbuffer st)\<rparr>"

definition uncompress_block :: "globals \<Rightarrow> nat \<Rightarrow> int \<Rightarrow> fsck_state \<Rightarrow> error + (int \<times> fsck_state)" where
  "uncompress_block g src len st =
     (if flags (super g) AND POLYFS_FLAG_LZO_COMPRESSION (hdr g) \<noteq> 0 then
        (if len > int (POLYFS_BLOCK_SIZE + POLYFS_BLOCK_SIZE div 16 + 64 + 3) then
           Inl (Die FSCK_UNCORRECTED ''data block too large'')
         else
           (let input = take (nat len) (drop src (read_buffer st));
                (err, produced) = lzo1x_decompress_safe g input (POLYFS_BLOCK_SIZE * 2);
                out = take (POLYFS_BLOCK_SIZE * 2) produced;
                outlen = length out
            in if err \<noteq> LZO_E_OK then
                 Inl (Die FSCK_UNCORRECTED ''decompression error %d'')
               else
                 (let st' = set_outbuffer out st;
                      crc = crc32 0 (take outlen (outbuffer st'));
                      offset = POLYFS_BLOCK_MAX_SIZE_WITH_OVERHEAD (hdr g) - nat len;
                      cap = (if len < int POLYFS_BLOCK_SIZE then outlen else POLYFS_BLOCK_SIZE);
                      (err2, produced2) = lzo1x_decompress_overlap g offset input cap;
                      overlap = take cap produced2;
                      new_len = length overlap
                  in if err2 \<noteq> LZO_E_OK then
                       Inl (Die FSCK_UNCORRECTED ''LZO overlap decompression failed: %d (1)'')
                     else
                       (let crc2 = crc32 0 overlap
                        in if new_len \<noteq> outlen \<or> crc \<noteq> crc2 then
                             Inl (Die FSCK_UNCORRECTED ''LZO overlap decompression failed: %d (2)'')
                           else Inr (int outlen, st')))))
      else if flags (super g) AND POLYFS_FLAG_ZLIB_COMPRESSION (hdr g) \<noteq> 0 then
        (if len > int (POLYFS_BLOCK_SIZE * 2) then
           Inl (Die FSCK_UNCORRECTED ''data block too large'')
         else
           (let input = take (nat len) (drop src (read_buffer st));
                (err, produced) = inflate g input (POLYFS_BLOCK_SIZE * 2);
                out = take (POLYFS_BLOCK_SIZE * 2) produced
            in if err \<noteq> Z_STREAM_END then
                 Inl (Die FSCK_UNCORRECTED ''decompression error %p(%d): %s'')
               else Inr (int (length out), set_outbuffer out st)))
      else
        (if len > int POLYFS_BLOCK_SIZE then
           Inl (Die FSCK_UNCORRECTED ''data block too large'')
         else Inr (len, st)))"


subsection \<open>do\_uncompress\<close>

text \<open>
  One pass through the body of the \<open>do ... while (size)\<close> loop, in the order of the
  source. \<open>read_next\<close> reads the block pointer and moves \<open>end_data\<close>; \<open>expand_block\<close>
  is the choice between a hole and \<open>uncompress_block\<close> and gives \<open>out\<close>;
  \<open>do_uncompress_block\<close> adds the two length tests and the \<open>write\<close>, and gives \<open>out\<close>
  and \<open>next\<close>. \<open>uncompress_block\<close> receives \<open>next - curr\<close> cut down to an \<open>int\<close>, and
  its \<open>int\<close> result is widened back to \<open>unsigned long\<close>. The variables \<open>curr\<close>
  and \<open>size\<close> of the source are \<open>cur\<close> and \<open>sz\<close> here.
\<close>

definition read_next :: "globals \<Rightarrow> ulong \<Rightarrow> fsck_state \<Rightarrow> ulong \<times> fsck_state" where
  "read_next g offset st =
     (let (next, st') = read_u32 g offset st
      in (next, if next > end_data st' then st'\<lparr>end_data := next\<rparr> else st'))"

definition expand_block :: "globals \<Rightarrow> ulong \<Rightarrow> ulong \<Rightarrow> ulong \<Rightarrow> fsck_state \<Rightarrow> error + (ulong \<times> fsck_state)" where
  "expand_block g cur next sz st =
     (if cur = next then
        (let out = (if sz < of_nat POLYFS_BLOCK_SIZE then sz else of_nat POLYFS_BLOCK_SIZE)
         in Inr (out, set_outbuffer (replicate (unat out) 0) st))
      else
        (let (src, st') = romfs_read g cur st
         in case uncompress_block g src (sint (ucast (next - cur) :: u32)) st' of
              Inl e \<Rightarrow> Inl e
            | Inr (r, st'') \<Rightarrow> Inr (word_of_int r, st'')))"

definition do_uncompress_block :: "globals \<Rightarrow> ulong \<Rightarrow> ulong \<Rightarrow> ulong \<Rightarrow> fsck_state \<Rightarrow> error + (ulong \<times> ulong \<times> fsck_state)" where
  "do_uncompress_block g offset cur sz st =
     (let (next, st1) = read_next g offset st
      in case expand_block g cur next sz st1 of
           Inl e \<Rightarrow> Inl e
         | Inr (out, st2) \<Rightarrow>
             if sz \<ge> of_nat POLYFS_BLOCK_SIZE \<and> out \<noteq> of_nat POLYFS_BLOCK_SIZE then
               Inl (Die FSCK_UNCORRECTED ''non-block (%ld) bytes'')
             else if \<not> sz \<ge> of_nat POLYFS_BLOCK_SIZE \<and> out \<noteq> sz then
               Inl (Die FSCK_UNCORRECTED ''non-size (%ld vs %ld) bytes'')
             else
               Inr (out, next,
                    host_call (opt_extract g) [Write (take (unat out) (outbuffer st2))] st2))"

function do_uncompress_loop :: "globals \<Rightarrow> ulong \<Rightarrow> ulong \<Rightarrow> ulong \<Rightarrow> fsck_state \<Rightarrow> error + fsck_state" where
  "do_uncompress_loop g offset cur sz st =
     (case do_uncompress_block g offset cur sz st of
        Inl e \<Rightarrow> Inl e
      | Inr (out, next, st') \<Rightarrow>
          if sz - out \<noteq> 0 then do_uncompress_loop g (offset + 4) next (sz - out) st'
          else Inr st')"
  by pat_completeness auto
termination
proof (relation "measure (\<lambda>(g, offset, cur, sz, st). unat sz)")
  show "wf (measure (\<lambda>(g, offset, cur, sz, st). unat sz))"
    by simp
next
  fix g :: globals and offset cur sz :: ulong and st st' :: fsck_state
    and x :: "ulong \<times> ulong \<times> fsck_state" and out :: ulong and y :: "ulong \<times> fsck_state"
    and nxt :: ulong
  assume blk: "do_uncompress_block g offset cur sz st = Inr x"
    and x: "(out, y) = x" and y: "(nxt, st') = y" and more: "sz - out \<noteq> 0"
  from blk x y have "do_uncompress_block g offset cur sz st = Inr (out, nxt, st')"
    by simp
  then have sz: "(sz \<ge> 4096 \<longrightarrow> out = 4096) \<and> (\<not> sz \<ge> 4096 \<longrightarrow> out = sz)"
    by (auto simp: do_uncompress_block_def POLYFS_BLOCK_SIZE_def Let_def
        split: prod.splits sum.splits if_splits)
  with more have big: "sz \<ge> 4096" and out: "out = 4096"
    by auto
  from big have "unat (sz - 4096) = unat sz - 4096"
    by (simp add: unat_sub)
  moreover from big have "4096 \<le> unat sz"
    by (simp add: word_le_nat_alt)
  ultimately show "((g, offset + 4, nxt, sz - out, st'), (g, offset, cur, sz, st))
      \<in> measure (\<lambda>(g, offset, cur, sz, st). unat sz)"
    using out by simp
qed

definition do_uncompress :: "globals \<Rightarrow> ulong \<Rightarrow> ulong \<Rightarrow> fsck_state \<Rightarrow> error + fsck_state" where
  "do_uncompress g offset sz st =
     do_uncompress_loop g offset
       (offset + 4 * ((sz + of_nat POLYFS_BLOCK_SIZE - 1) div of_nat POLYFS_BLOCK_SIZE)) sz st"

subsection \<open>The handlers of the inode types\<close>

definition do_file :: "globals \<Rightarrow> byte list \<Rightarrow> polyfs_inode \<Rightarrow> fsck_state \<Rightarrow> error + fsck_state" where
  "do_file g path i st =
     (let offset = (of_nat (ioffset i * 4) :: ulong) in
      if offset = 0 \<and> isize i \<noteq> 0 then
        Inl (Die FSCK_UNCORRECTED ''file inode has zero offset and non-zero size'')
      else if isize i = 0 \<and> offset \<noteq> 0 then
        Inl (Die FSCK_UNCORRECTED ''file inode has zero size and non-zero offset'')
      else
        (let st1 = (if offset \<noteq> 0 \<and> offset < start_data st
                    then st\<lparr>start_data := offset\<rparr> else st);
             st2 = host_call (opt_extract g) [Open path (mode i)] st1
         in case (if isize i \<noteq> 0 then do_uncompress g offset (of_nat (isize i)) st2
                  else Inr st2) of
              Inl e \<Rightarrow> Inl e
            | Inr st3 \<Rightarrow>
                Inr (host_call (opt_extract g) [Close, Change_file_status path i] st3)))"

text \<open>A C string: the bytes before the first NUL.\<close>

definition cstring :: "byte list \<Rightarrow> byte list" where
  "cstring bs = takeWhile (\<lambda>b. b \<noteq> 0) bs"

definition do_symlink :: "globals \<Rightarrow> byte list \<Rightarrow> polyfs_inode \<Rightarrow> fsck_state \<Rightarrow> error + fsck_state" where
  "do_symlink g path i st =
     (let offset = (of_nat (ioffset i * 4) :: ulong);
          cur = offset + 4;
          (next, st1) = read_u32 g offset st
      in if offset = 0 then
           Inl (Die FSCK_UNCORRECTED ''symbolic link has zero offset'')
         else if isize i = 0 then
           Inl (Die FSCK_UNCORRECTED ''symbolic link has zero size'')
         else
           (let st2 = (if offset < start_data st1 then st1\<lparr>start_data := offset\<rparr> else st1);
                st3 = (if next > end_data st2 then st2\<lparr>end_data := next\<rparr> else st2);
                (src, st4) = romfs_read g cur st3
            in case uncompress_block g src (sint (ucast (next - cur) :: u32)) st4 of
                 Inl e \<Rightarrow> Inl e
               | Inr (r, st5) \<Rightarrow>
                   (let sz = (word_of_int r :: ulong) in
                    if sz \<noteq> of_nat (isize i) then
                      Inl (Die FSCK_UNCORRECTED ''size error in symlink: %s'')
                    else
                      (let st6 = st5\<lparr>outbuffer := (outbuffer st5)[unat sz := 0]\<rparr>
                       in Inr (host_call (opt_extract g)
                                 [Symlink (cstring (outbuffer st6)) path,
                                  Change_file_status path i] st6)))))"

definition do_special_inode :: "globals \<Rightarrow> byte list \<Rightarrow> polyfs_inode \<Rightarrow> fsck_state \<Rightarrow> error + fsck_state" where
  "do_special_inode g path i st =
     (if ioffset i \<noteq> 0 then
        Inl (Die FSCK_UNCORRECTED ''special file has non-zero offset: %s'')
      else
        (case (if S_ISCHR (mode i) then Inr (isize i)
               else if S_ISBLK (mode i) then Inr (isize i)
               else if S_ISFIFO (mode i) then
                 (if isize i \<noteq> 0 then Inl (Die FSCK_UNCORRECTED ''fifo has non-zero size: %s'')
                  else Inr 0)
               else if S_ISSOCK (mode i) then
                 (if isize i \<noteq> 0 then Inl (Die FSCK_UNCORRECTED ''socket has non-zero size: %s'')
                  else Inr 0)
               else Inl (Die FSCK_UNCORRECTED ''bogus mode: %s (%o)'')) of
           Inl e \<Rightarrow> Inl e
         | Inr devtype \<Rightarrow>
             Inr (host_call (opt_extract g)
                    [Mknod path (mode i) devtype, Change_file_status path i] st)))"

subsection \<open>expand\_fs and do\_directory\<close>

text \<open>
  \<open>do_directory\<close> in three pieces around its recursive call. \<open>do_directory_enter\<close> is
  what precedes the loop; it gives the beginning of \<open>newpath\<close> (the path and its
  slash), \<open>count\<close> and \<open>offset\<close>. \<open>read_child\<close> is the loop body up to the call of
  \<open>expand_fs\<close>; it gives the child, its path (\<open>newpath\<close> as a C string) and \<open>newlen\<close>.
  \<open>end_child\<close> is the loop body after the call, on the offset behind the name.
  \<open>count\<close> is an \<open>int\<close> that starts below \<open>2 ^ 24\<close> and loses at most 264 in a pass,
  so it is an integer here.
\<close>

definition do_directory_enter :: "globals \<Rightarrow> byte list \<Rightarrow> polyfs_inode \<Rightarrow> fsck_state \<Rightarrow> error + (byte list \<times> int \<times> ulong \<times> fsck_state)" where
  "do_directory_enter g path i st =
     (let count = int (isize i);
          offset = (of_nat (ioffset i * 4) :: ulong)
      in if offset = 0 \<and> count \<noteq> 0 then
           Inl (Die FSCK_UNCORRECTED ''directory inode has zero offset and non-zero size: %s'')
         else
           (let st1 = (if offset \<noteq> 0 \<and> offset < start_dir st
                       then st\<lparr>start_dir := offset\<rparr> else st);
                prefix = (if length path > 1 then path @ [0x2F] else path);
                st2 = host_call (opt_extract g)
                        [Mkdir path (mode i), Change_file_status path i] st1
            in Inr (prefix, count, offset, st2)))"

definition read_child :: "globals \<Rightarrow> byte list \<Rightarrow> ulong \<Rightarrow> fsck_state \<Rightarrow> error + (polyfs_inode \<times> byte list \<times> nat \<times> fsck_state)" where
  "read_child g prefix offset st =
     (let (child, st1) = iget g offset st;
          newlen = namelen child * 4;
          (src, st2) = romfs_read g (offset + of_nat sizeof_inode) st1;
          newpath = prefix @ take newlen (drop src (read_buffer st2))
      in if newlen = 0 then
           Inl (Die FSCK_UNCORRECTED ''filename length is zero'')
         else if (length prefix + newlen) - length (cstring newpath) > 3 then
           Inl (Die FSCK_UNCORRECTED ''bad filename length'')
         else Inr (child, cstring newpath, newlen, st2))"

definition end_child :: "ulong \<Rightarrow> fsck_state \<Rightarrow> error + fsck_state" where
  "end_child offset st =
     (if offset \<le> start_dir st then Inl (Die FSCK_UNCORRECTED ''bad inode offset'')
      else Inr (if offset > end_dir st then st\<lparr>end_dir := offset\<rparr> else st))"

text \<open>
  \<open>do_directory\<close> calls \<open>expand_fs\<close> on every child and \<open>expand_fs\<close> calls
  \<open>do_directory\<close> on a directory; nothing in the image bounds the depth (a directory
  may list itself). The first argument bounds the number of nested calls and of loop
  passes still allowed; \<open>None\<close> is a walk that needs more.
\<close>

function expand_fs :: "nat \<Rightarrow> globals \<Rightarrow> byte list \<Rightarrow> polyfs_inode \<Rightarrow> fsck_state \<Rightarrow> (error + fsck_state) option"
  and do_directory :: "nat \<Rightarrow> globals \<Rightarrow> byte list \<Rightarrow> polyfs_inode \<Rightarrow> fsck_state \<Rightarrow> (error + fsck_state) option"
  and do_directory_loop :: "nat \<Rightarrow> globals \<Rightarrow> byte list \<Rightarrow> int \<Rightarrow> ulong \<Rightarrow> fsck_state \<Rightarrow> (error + fsck_state) option"
  where
  "expand_fs 0 g path inode st = None"
| "expand_fs (Suc n) g path inode st =
     (if S_ISDIR (mode inode) then do_directory n g path inode st
      else if S_ISREG (mode inode) then Some (do_file g path inode st)
      else if S_ISLNK (mode inode) then Some (do_symlink g path inode st)
      else Some (do_special_inode g path inode st))"
| "do_directory n g path i st =
     (case do_directory_enter g path i st of
        Inl e \<Rightarrow> Some (Inl e)
      | Inr (prefix, count, offset, st') \<Rightarrow> do_directory_loop n g prefix count offset st')"
| "do_directory_loop 0 g prefix count offset st =
     (if count > 0 then None else Some (Inr st))"
| "do_directory_loop (Suc n) g prefix count offset st =
     (if count > 0 then
        (case read_child g prefix offset st of
           Inl e \<Rightarrow> Some (Inl e)
         | Inr (child, newpath, newlen, st1) \<Rightarrow>
             (case expand_fs n g newpath child st1 of
                None \<Rightarrow> None
              | Some (Inl e) \<Rightarrow> Some (Inl e)
              | Some (Inr st2) \<Rightarrow>
                  (case end_child (offset + of_nat sizeof_inode + of_nat newlen) st2 of
                     Inl e \<Rightarrow> Some (Inl e)
                   | Inr st3 \<Rightarrow>
                       do_directory_loop n g prefix (count - int (sizeof_inode + newlen))
                         (offset + of_nat sizeof_inode + of_nat newlen) st3)))
      else Some (Inr st))"
  by pat_completeness auto
termination
  by (relation "measure (\<lambda>x. case x of
         Inl (n, g, path, inode, st) \<Rightarrow> 3 * n + 2
       | Inr (Inl (n, g, path, i, st)) \<Rightarrow> 3 * n + 1
       | Inr (Inr (n, g, prefix, count, offset, st)) \<Rightarrow> 3 * n)") auto

subsection \<open>test\_fs and main\<close>

definition test_fs :: "nat \<Rightarrow> globals \<Rightarrow> nat \<Rightarrow> fsck_state \<Rightarrow> (error + fsck_state) option" where
  "test_fs n g start st =
     (let root = root (super g);
          root_offset = (of_nat (ioffset root * 4) :: ulong)
      in if \<not> S_ISDIR (mode root) then
           Some (Inl (Die FSCK_UNCORRECTED ''root inode is not directory''))
         else if flags (super g) AND POLYFS_FLAG_SHIFTED_ROOT_OFFSET (hdr g) = 0 \<and>
                 (root_offset \<noteq> of_nat sizeof_super \<and>
                  root_offset \<noteq> of_nat (PAD_SIZE + sizeof_super)) then
           Some (Inl (Die FSCK_UNCORRECTED ''bad root offset (%lu)''))
         else
           (case expand_fs n g (extract_dir g) root st of
              None \<Rightarrow> None
            | Some (Inl e) \<Rightarrow> Some (Inl e)
            | Some (Inr st') \<Rightarrow>
                if start_data st' \<noteq> ULONG_MAX \<and>
                   start_data st' < of_nat (sizeof_super + start) then
                  Some (Inl (Die FSCK_UNCORRECTED
                    ''directory data start (%ld) < sizeof(struct polyfs_super) + start (%ld)''))
                else if start_data st' \<noteq> ULONG_MAX \<and> end_dir st' \<noteq> start_data st' then
                  Some (Inl (Die FSCK_UNCORRECTED
                    ''directory data end (%ld) != file data start (%ld)''))
                else if flags (super g) AND POLYFS_FLAG_FSID_VERSION_1 (hdr g) \<noteq> 0 \<and>
                        end_data st' > ucast (ssize (super g)) then
                  Some (Inl (Die FSCK_UNCORRECTED ''invalid file data offset''))
                else Some (Inr st')))"

text \<open>
  \<open>main\<close> after the options are read: \<open>g\<close> holds the image and the options, \<open>mapped\<close>
  is the outcome of \<open>mmap\<close> in \<open>test_crc\<close>. \<open>Some (Inr st)\<close> is \<open>exit(FSCK_OK)\<close>.
\<close>

definition polyfsck :: "nat \<Rightarrow> globals \<Rightarrow> bool \<Rightarrow> (error + fsck_state) option" where
  "polyfsck n g mapped =
     (case test_super (hdr g) (fd g) of
        Inl e \<Rightarrow> Some (Inl e)
      | Inr (sb, start) \<Rightarrow>
          (case test_crc (hdr g) mapped (fd g) sb start of
             Inl e \<Rightarrow> Some (Inl e)
           | Inr u \<Rightarrow> test_fs n (g\<lparr>super := sb\<rparr>) start init_state))"

section \<open>Sample images\<close>

text \<open>
  Concrete inputs for the evaluations below. \<open>sample_h\<close> gives the constants of the
  header values with one bit for each flag.
\<close>

definition sample_h :: polyfs_fs_h where
  "sample_h = \<lparr> POLYFS_MAGIC = 0x28CD3D45, POLYFS_SUPPORTED_FLAGS = 0x3401,
      POLYFS_FLAG_FSID_VERSION_1 = 0x1, POLYFS_FLAG_SHIFTED_ROOT_OFFSET = 0x400,
      POLYFS_FLAG_ZLIB_COMPRESSION = 0x1000, POLYFS_FLAG_LZO_COMPRESSION = 0x2000,
      POLYFS_BLOCK_MAX_SIZE_WITH_OVERHEAD = 4419 \<rparr>"

text \<open>A superblock with flags \<open>0x80000001\<close>: bit 31 is not a supported flag.\<close>

definition bad_flags_image :: "byte list" where
  "bad_flags_image =
     [0x45, 0x3D, 0xCD, 0x28, 0x00, 0x10, 0x00, 0x00, 0x01, 0x00, 0x00, 0x80,
      0x00, 0x00, 0x00, 0x00, 0x00, 0x00, 0x00, 0x00, 0x00, 0x00, 0x00, 0x00,
      0x00, 0x00, 0x00, 0x00, 0x00, 0x00, 0x00, 0x00, 0xD4, 0xA7, 0x54, 0xD6,
      0x00, 0x00, 0x00, 0x00, 0x00, 0x00, 0x00, 0x00, 0x01, 0x00, 0x00, 0x00,
      0x00, 0x00, 0x00, 0x00, 0x00, 0x00, 0x00, 0x00, 0x00, 0x00, 0x00, 0x00,
      0x00, 0x00, 0x00, 0x00, 0xED, 0x41, 0x00, 0x00, 0x00, 0x00, 0x00, 0x00,
      0xC0, 0x04, 0x00, 0x00]"

section \<open>Properties\<close>

subsection \<open>test\_super\<close>

text \<open>
  C8. Whenever a superblock is found (the image is long enough and the magic matches
  at offset 0 or 512) and its flags have a bit outside \<open>POLYFS_SUPPORTED_FLAGS\<close>,
  \<open>test_super\<close> ends the run with status \<open>FSCK_ERROR\<close> (8) and the message
  "unsupported filesystem features", whatever else is wrong with the superblock.
\<close>

theorem test_super_unsupported_flags:
  assumes "sizeof_super \<le> length img"
    and "find_super h img = (sb, start)"
    and "magic sb = POLYFS_MAGIC h"
    and "flags sb AND NOT (POLYFS_SUPPORTED_FLAGS h) \<noteq> 0"
  shows "test_super h img = Inl (Die FSCK_ERROR ''unsupported filesystem features'')
    \<and> FSCK_ERROR = 8 \<and> FSCK_ERROR \<noteq> FSCK_UNCORRECTED"
  using assms by (simp add: test_super_def FSCK_ERROR_def FSCK_UNCORRECTED_def)

lemmas read_defs = read_super_def polyfs_iget_def le32_def le24_def le16_def byte_at_def

theorem test_super_unsupported_flags_witness:
  "sizeof_super \<le> length bad_flags_image
   \<and> magic (fst (find_super sample_h bad_flags_image)) = POLYFS_MAGIC sample_h
   \<and> flags (fst (find_super sample_h bad_flags_image))
         AND NOT (POLYFS_SUPPORTED_FLAGS sample_h) \<noteq> 0
   \<and> test_super sample_h bad_flags_image = Inl (Die 8 ''unsupported filesystem features'')"
proof -
  have sb: "find_super sample_h bad_flags_image = (read_super bad_flags_image 0, 0)"
    by (simp add: find_super_def read_defs bad_flags_image_def sample_h_def)
  have len: "sizeof_super \<le> length bad_flags_image"
    by (simp add: sizeof_super_def bad_flags_image_def)
  have mg: "magic (read_super bad_flags_image 0) = POLYFS_MAGIC sample_h"
    by (simp add: read_defs bad_flags_image_def sample_h_def)
  have fl: "flags (read_super bad_flags_image 0)
              AND NOT (POLYFS_SUPPORTED_FLAGS sample_h) \<noteq> 0"
    by (simp add: read_defs bad_flags_image_def sample_h_def)
  from test_super_unsupported_flags [OF len sb mg fl] len sb mg fl show ?thesis
    by simp
qed

subsection \<open>crc32 and test\_crc\<close>

lemma xor_lt_2p32: "(x::nat) < 2 ^ 32 \<Longrightarrow> y < 2 ^ 32 \<Longrightarrow> x XOR y < 2 ^ 32"
proof -
  assume a: "x < 2 ^ 32" and b: "y < 2 ^ 32"
  have "take_bit 32 (x XOR y) = take_bit 32 x XOR take_bit 32 y"
    by (rule take_bit_xor)
  also have "\<dots> = x XOR y"
    by (simp only: take_bit_nat_eq_self [OF a] take_bit_nat_eq_self [OF b])
  finally have "x XOR y = take_bit 32 (x XOR y)" by (rule sym)
  also have "\<dots> < 2 ^ 32" by (rule take_bit_nat_less_exp)
  finally show ?thesis .
qed

lemma crc_step_lt: "c < 2 ^ 32 \<Longrightarrow> crc_step c < 2 ^ 32"
proof -
  assume c: "c < 2 ^ 32"
  then have d: "c div 2 < 2 ^ 32" by simp
  have p: "(0xEDB88320::nat) < 2 ^ 32" by simp
  show ?thesis
    unfolding crc_step_def using d xor_lt_2p32 [OF d p] by simp
qed

lemma crc_byte_lt: "c < 2 ^ 32 \<Longrightarrow> b < 256 \<Longrightarrow> crc_byte c b < 2 ^ 32"
  unfolding crc_byte_def
  by (intro crc_step_lt xor_lt_2p32) auto

lemma crc_reg_lt: "r < 2 ^ 32 \<Longrightarrow> crc_reg r buf < 2 ^ 32"
proof (induction buf arbitrary: r)
  case Nil
  then show ?case by (simp add: crc_reg_def)
next
  case (Cons b buf)
  have "unat b < 256" using unsigned_less [of b, where ?'a = nat] by simp
  with Cons.prems have "crc_byte r (unat b) < 2 ^ 32" by (rule crc_byte_lt)
  from Cons.IH [OF this] show ?case by (simp add: crc_reg_def)
qed

lemma crc_reg_append: "crc_reg r (xs @ ys) = crc_reg (crc_reg r xs) ys"
  by (simp add: crc_reg_def)

lemma crc32_append: "crc32 (crc32 c xs) ys = crc32 c (xs @ ys)"
proof -
  let ?r = "crc_reg (unat (c XOR 0xFFFFFFFF)) xs"
  have "unat (c XOR 0xFFFFFFFF) < 2 ^ 32" using unsigned_less [of "c XOR 0xFFFFFFFF", where ?'a = nat] by simp
  then have lt: "?r < 2 ^ 32" by (rule crc_reg_lt)
  have "(of_nat ?r XOR 0xFFFFFFFF) XOR 0xFFFFFFFF = (of_nat ?r :: u32)"
    by (simp add: xor.assoc)
  moreover have "unat (of_nat ?r :: u32) = ?r"
    by (rule of_nat_inverse [OF refl]) (use lt in simp)
  ultimately show ?thesis
    by (simp add: crc32_def crc_reg_append)
qed

lemma crc32_Nil: "crc32 c [] = c"
  by (simp add: crc32_def crc_reg_def xor.assoc)


lemma clear_crc_take: "take m (clear_crc p buf) = clear_crc p (take m buf)"
  by (simp add: clear_crc_def take_update_swap)

lemma clear_crc_drop: "drop p (clear_crc p buf) = clear_crc 0 (drop p buf)"
  by (simp add: clear_crc_def drop_update_swap)

lemma clear_crc_drop_past: "36 \<le> m \<Longrightarrow> drop m (clear_crc 0 buf) = drop m buf"
  by (simp add: clear_crc_def offsetof_fsid_crc_def)

lemma length_clear_crc: "length (clear_crc p buf) = length buf"
  by (simp add: clear_crc_def)

lemma test_crc_mapped:
  assumes "flags sb AND POLYFS_FLAG_FSID_VERSION_1 h \<noteq> 0"
  shows "test_crc h True img sb start =
    (if crc32 0 (take (unat (ssize sb - of_nat start)) (clear_crc 0 (drop start (take (unat (ssize sb)) img)))) = crc (fsid sb)
     then Inr () else Inl (Die FSCK_UNCORRECTED ''crc error''))"
  using assms by (simp add: test_crc_def Let_def clear_crc_drop)

lemma crc_read_loop_inv:
  assumes "n \<le> length img - start" and "36 \<le> length img - start"
    and "len \<le> n" and "len = 0 \<or> 36 \<le> len"
  shows "crc_read_loop img start n len (crc32 0 (take len (clear_crc 0 (drop start img))))
       = crc32 0 (take n (clear_crc 0 (drop start img)))"
  using assms
proof (induction img start n len "crc32 0 (take len (clear_crc 0 (drop start img)))" rule: crc_read_loop.induct)
  case (1 img start n len)
  define E where "E = clear_crc 0 (drop start img)"
  define chunk where "chunk = take 4096 (drop (start + len) img)"
  define r where "r = length chunk"
  define buf where "buf = (if len = 0 then clear_crc 0 chunk else chunk)"
  have buf: "buf = take 4096 (drop len E)"
  proof (cases "len = 0")
    case True
    then show ?thesis by (simp add: buf_def chunk_def E_def clear_crc_take)
  next
    case False
    with "1.prems" have "36 \<le> len" by simp
    then show ?thesis using False
      by (simp add: buf_def chunk_def E_def clear_crc_drop_past add.commute)
  qed
  have lenE: "length E = length img - start" by (simp add: E_def length_clear_crc)
  have r: "r = min 4096 (length img - start - len)"
    by (simp add: r_def chunk_def min.commute)
  have unfold: "crc_read_loop img start n len c =
      (if r = 0 then c
       else if len + r > n then crc32 c (take (r - (len + r - n)) buf)
       else crc_read_loop img start n (len + r) (crc32 c buf))" for c
    by (subst crc_read_loop.simps) (simp only: Let_def r_def chunk_def buf_def)
  show ?case
  proof (cases "r = 0")
    case True
    with r have "length img - start \<le> len" by simp
    with "1.prems" have eq: "len = n" by simp
    have "crc_read_loop img start n len (crc32 0 (take len E)) = crc32 0 (take len E)"
      using True by (simp only: unfold if_True simp_thms)
    then show ?thesis unfolding E_def [symmetric] eq .
  next
    case nz: False
    show ?thesis
    proof (cases "len + r > n")
      case True
      have a: "r - (len + r - n) = n - len" using True "1.prems"(3) by arith
      have b: "n - len \<le> 4096" using True "1.prems"(3) r by arith
      have "take (n - len) (take 4096 (drop len E)) = take (n - len) (drop len E)"
        using b by (simp add: min_def)
      moreover have "take len E @ take (n - len) (drop len E) = take (len + (n - len)) E"
        by (simp only: take_add)
      moreover have "len + (n - len) = n" using "1.prems"(3) by arith
      ultimately have "crc32 (crc32 0 (take len E)) (take (r - (len + r - n)) buf)
          = crc32 0 (take n E)"
        by (simp only: buf crc32_append a)
      moreover have "crc_read_loop img start n len (crc32 0 (take len E))
          = crc32 (crc32 0 (take len E)) (take (r - (len + r - n)) buf)"
        using nz True by (simp only: unfold if_True if_False simp_thms)
      ultimately show ?thesis unfolding E_def [symmetric]
        by (simp only:)
    next
      case False
      have "take 4096 (drop len E) = take r (drop len E)"
        using r lenE by (simp add: min_def)
      then have "take len E @ buf = take (len + r) E"
        by (simp only: buf take_add)
      then have c: "crc32 (crc32 0 (take len E)) buf = crc32 0 (take (len + r) E)"
        by (simp only: crc32_append)
      have r36: "len + r \<le> n" "len + r = 0 \<or> 36 \<le> len + r"
        using "1.prems" r False nz by arith+
      have nz': "length (take 4096 (drop (start + len) img)) \<noteq> 0"
        using nz unfolding r_def chunk_def .
      have F': "\<not> n < len + length (take 4096 (drop (start + len) img))"
        using False unfolding r_def chunk_def .
      have ih: "crc_read_loop img start n (len + r) (crc32 0 (take (len + r) E))
          = crc32 0 (take n E)"
        unfolding E_def r_def chunk_def
        by (rule "1.hyps" [OF refl refl nz' refl refl F' _ "1.prems"(1,2)])
           (use r36 c in \<open>simp_all only: E_def r_def chunk_def buf_def\<close>)
      moreover have "crc_read_loop img start n len (crc32 0 (take len E))
          = crc_read_loop img start n (len + r) (crc32 (crc32 0 (take len E)) buf)"
        using nz False by (simp only: unfold if_False simp_thms)
      ultimately show ?thesis unfolding E_def [symmetric]
        by (simp only: c)
    qed
  qed
qed


text \<open>
  C2, as the code has it. With the FSID\_VERSION\_1 flag set, \<open>start\<close> not beyond
  \<open>super.size\<close> and the file at least \<open>super.size\<close> bytes long, \<open>test_crc\<close> takes the
  CRC-32 of the bytes from \<open>start\<close> up to \<open>super.size\<close> (that is \<open>super.size - start\<close>
  bytes, not \<open>super.size\<close> bytes), with the four bytes of \<open>fsid.crc\<close> read as zero,
  and dies with "crc error" exactly when the value differs from the stored one. The
  mapped path and the path reading pieces of 4096 bytes compute the same value.
\<close>

theorem test_crc_range:
  assumes fsid: "flags sb AND POLYFS_FLAG_FSID_VERSION_1 h \<noteq> 0"
    and start: "start \<le> unat (ssize sb)"
    and size: "unat (ssize sb) \<le> length img"
    and sb_in: "start + sizeof_super \<le> length img"
  shows "test_crc h mapped img sb start =
    (if crc32 0 (take (unat (ssize sb) - start) (clear_crc 0 (drop start img))) \<noteq> crc (fsid sb)
     then Inl (Die FSCK_UNCORRECTED ''crc error'') else Inr ())"
proof -
  define n where "n = unat (ssize sb) - start"
  have "start < 2 ^ LENGTH(32)"
    using start unsigned_less [of "ssize sb", where ?'a = nat] by simp
  then have us: "unat (of_nat start :: u32) = start"
    by (rule of_nat_inverse [OF refl])
  then have "(of_nat start :: u32) \<le> ssize sb"
    using start by (simp add: word_le_nat_alt)
  then have n: "unat (ssize sb - of_nat start) = n"
    by (simp add: unat_sub us n_def)
  have nle: "n \<le> length img - start" using size by (simp add: n_def)
  show ?thesis
  proof (cases mapped)
    case True
    have "drop start (take (unat (ssize sb)) img) = take n (drop start img)"
      by (simp add: drop_take n_def)
    then have "take n (clear_crc 0 (drop start (take (unat (ssize sb)) img)))
        = take n (clear_crc 0 (drop start img))"
      by (simp add: clear_crc_take)
    with True fsid n show ?thesis
      by (simp add: test_crc_mapped n_def)
  next
    case False
    have "36 \<le> length img - start" using sb_in by (simp add: sizeof_super_def)
    from crc_read_loop_inv [OF nle this, of 0]
    have "crc_read_loop img start n 0 0 = crc32 0 (take n (clear_crc 0 (drop start img)))"
      by (simp add: crc32_Nil)
    with False fsid n show ?thesis
      by (simp add: test_crc_def n_def)
  qed
qed

end
